theory Spec2Isabelle
  imports Complex_Main "HOL-Library.AList"
begin

section \<open>Python floats\<close>

text \<open>
  The scalars the dashboards compare and average are Python/NumPy floats. A float is
  modelled as \<open>NaN\<close>, one of the two infinities, or a finite value. Finite values are
  exact rationals: the rounding of float64 arithmetic is not modelled, so a mean below
  is the exact mean of the finite values it averages.
\<close>

datatype pyfloat = NaN | NInf | Fin rat | PInf

text \<open>Python's \<open><\<close> on floats: every comparison with \<open>NaN\<close> is \<open>False\<close>.\<close>

fun fl_less :: "pyfloat \<Rightarrow> pyfloat \<Rightarrow> bool" where
  "fl_less NaN _ = False"
| "fl_less _ NaN = False"
| "fl_less NInf NInf = False"
| "fl_less NInf _ = True"
| "fl_less (Fin a) (Fin b) = (a < b)"
| "fl_less (Fin a) PInf = True"
| "fl_less _ _ = False"

text \<open>Python's \<open>></\<close>, \<open><=\<close> and \<open>>=\<close>.\<close>

definition fl_gt :: "pyfloat \<Rightarrow> pyfloat \<Rightarrow> bool" where
  "fl_gt a b = fl_less b a"

fun fl_le :: "pyfloat \<Rightarrow> pyfloat \<Rightarrow> bool" where
  "fl_le NaN _ = False"
| "fl_le _ NaN = False"
| "fl_le a b = (\<not> fl_less b a)"

definition fl_ge :: "pyfloat \<Rightarrow> pyfloat \<Rightarrow> bool" where
  "fl_ge a b = fl_le b a"

text \<open>Float addition: an infinity absorbs finite values, opposite infinities give \<open>NaN\<close>.\<close>

fun fl_add :: "pyfloat \<Rightarrow> pyfloat \<Rightarrow> pyfloat" where
  "fl_add NaN _ = NaN"
| "fl_add _ NaN = NaN"
| "fl_add PInf NInf = NaN"
| "fl_add NInf PInf = NaN"
| "fl_add PInf _ = PInf"
| "fl_add _ PInf = PInf"
| "fl_add NInf _ = NInf"
| "fl_add _ NInf = NInf"
| "fl_add (Fin a) (Fin b) = Fin (a + b)"

text \<open>Division of a float by a positive count.\<close>

fun fl_div_count :: "pyfloat \<Rightarrow> nat \<Rightarrow> pyfloat" where
  "fl_div_count (Fin a) n = Fin (a / of_nat n)"
| "fl_div_count x n = x"

text \<open>
  The mean that pandas computes with \<open>skipna=True\<close> (its default): \<open>NaN\<close> entries
  are left out, and the mean of no entries is \<open>NaN\<close>.
\<close>

definition mean_skipna :: "pyfloat list \<Rightarrow> pyfloat" where
  "mean_skipna xs =
     (let ys = filter (\<lambda>x. x \<noteq> NaN) xs
      in if ys = [] then NaN else fl_div_count (foldl fl_add (Fin 0) ys) (length ys))"


section \<open>Risk-level classifiers\<close>

text \<open>The emoji of the source, as their UTF-8 bytes.\<close>

definition purple_square :: string where
  "purple_square = [CHR 0xF0, CHR 0x9F, CHR 0x9F, CHR 0xAA]"

definition red_circle :: string where
  "red_circle = [CHR 0xF0, CHR 0x9F, CHR 0x94, CHR 0xB4]"

definition orange_circle :: string where
  "orange_circle = [CHR 0xF0, CHR 0x9F, CHR 0x9F, CHR 0xA0]"

definition yellow_circle :: string where
  "yellow_circle = [CHR 0xF0, CHR 0x9F, CHR 0x9F, CHR 0xA1]"

definition green_circle :: string where
  "green_circle = [CHR 0xF0, CHR 0x9F, CHR 0x9F, CHR 0xA2]"

text \<open>
  \<^verbatim>\<open>src/dashboard_v2/app.py\<close>, lines 75 to 84: the chain that sets
  \<open>(level, color, emoji)\<close> from \<open>latest_rsam\<close>.
\<close>

definition risk_level :: "pyfloat \<Rightarrow> string \<times> string \<times> string" where
  "risk_level latest_rsam =
     (if fl_gt latest_rsam (Fin 5000) then (''ERUPTION'', ''#9f00e0'', purple_square)
      else if fl_gt latest_rsam (Fin 3000) then (''IMMINENT (<1h)'', ''#e60000'', red_circle)
      else if fl_gt latest_rsam (Fin 1500) then (''HIGH (<12h)'', ''#ff6600'', orange_circle)
      else if fl_gt latest_rsam (Fin 800) then (''ELEVATED (<48h)'', ''#ffd700'', yellow_circle)
      else (''NORMAL'', ''#00b300'', green_circle))"

text \<open>
  \<^verbatim>\<open>src/Dashboard/app.py\<close>, lines 35 to 44: the same chain with French labels
  (\<open>E\<close> with an acute accent is the two bytes \<open>C3 89\<close> of UTF-8).
\<close>

definition Dashboard_risk_level :: "pyfloat \<Rightarrow> string \<times> string \<times> string" where
  "Dashboard_risk_level latest_rsam =
     (if fl_gt latest_rsam (Fin 5000) then
        ([CHR 0xC3, CHR 0x89] @ ''RUPTION'', ''#9f00e0'', purple_square)
      else if fl_gt latest_rsam (Fin 3000) then (''IMMINENT (<1h)'', ''#e60000'', red_circle)
      else if fl_gt latest_rsam (Fin 1500) then
        ([CHR 0xC3, CHR 0x89] @ ''LEV'' @ [CHR 0xC3, CHR 0x89] @ '' (<12h)'', ''#ff6600'',
         orange_circle)
      else if fl_gt latest_rsam (Fin 800) then (''MOYEN (<48h)'', ''#ffd700'', yellow_circle)
      else (''NORMAL'', ''#00b300'', green_circle))"

text \<open>
  \<^verbatim>\<open>src/app.py\<close>, lines 74 to 83: the chain that sets
  \<open>(risk_text, risk_color, risk_emoji)\<close> from \<open>max_std\<close>. The capital E with an
  acute accent of the first label is its two UTF-8 bytes.
\<close>

definition risk_text :: "pyfloat \<Rightarrow> string \<times> string \<times> string" where
  "risk_text max_std =
     (if fl_gt max_std (Fin 100000) then
        ([CHR 0xC3, CHR 0x89] @ ''ruption en cours'', ''purple'', purple_square)
      else if fl_gt max_std (Fin 30000) then (''Risque < 1h'', ''red'', red_circle)
      else if fl_gt max_std (Fin 10000) then (''Risque < 12h'', ''orange'', orange_circle)
      else if fl_gt max_std (Fin 3000) then (''Risque < 24h'', ''goldenrod'', yellow_circle)
      else (''Pas de risque'', ''green'', green_circle))"

text \<open>
  The severity of a tier is its place in the chain, counted from the last branch
  (the lowest tier, 0) to the first (the highest, 4). A tier is recognised by its colour,
  which is distinct in every branch of both chains.
\<close>

definition severity :: "string \<times> string \<times> string \<Rightarrow> nat" where
  "severity tier =
     (let c = fst (snd tier) in
      if c = ''#9f00e0'' \<or> c = ''purple'' then 4
      else if c = ''#e60000'' \<or> c = ''red'' then 3
      else if c = ''#ff6600'' \<or> c = ''orange'' then 2
      else if c = ''#ffd700'' \<or> c = ''goldenrod'' then 1
      else 0)"

section \<open>Data frames\<close>

text \<open>
  A pandas data frame, as far as the dashboards use one. Every frame they handle has the
  timestamp column \<open>time_min\<close>, converted by \<open>pd.to_datetime\<close>: it is a field of the
  row, in whole seconds since the epoch (the files are one-minute aggregates). The other
  columns are listed by name with their dtype, in column order; a row holds their cells
  by name, and a column with no cell in a row reads as \<open>NaN\<close> there, as after
  \<open>pd.concat\<close> of frames with different columns.
\<close>

type_synonym date = "int \<times> int \<times> int"

datatype cell = Num pyfloat | Str string | Day date

datatype dtype = Numeric | Object

record row =
  time_min :: int
  cells :: "(string \<times> cell) list"

record frame =
  columns :: "(string \<times> dtype) list"
  rows :: "row list"

text \<open>\<open>pd.DataFrame()\<close>: no columns (not even \<open>time_min\<close>) and no rows.\<close>

definition empty_frame :: frame where
  "empty_frame = \<lparr>columns = [], rows = []\<rparr>"

text \<open>Exceptions, with the text \<open>str(e)\<close> gives.\<close>

datatype exn = KeyError string | OtherError string

fun exn_str :: "exn \<Rightarrow> string" where
  "exn_str (KeyError k) = [CHR 0x27] @ k @ [CHR 0x27]"
| "exn_str (OtherError m) = m"

text \<open>What \<open>st.warning\<close> and \<open>st.error\<close> show.\<close>

datatype message = Warning string | Error string

definition get_cell :: "row \<Rightarrow> string \<Rightarrow> cell" where
  "get_cell r c = (case map_of (cells r) c of Some v \<Rightarrow> v | None \<Rightarrow> Num NaN)"

definition get_num :: "row \<Rightarrow> string \<Rightarrow> pyfloat" where
  "get_num r c = (case get_cell r c of Num x \<Rightarrow> x | _ \<Rightarrow> NaN)"

text \<open>
  \<open>df[c] = ...\<close>: a column assignment. An existing column keeps its place and a new one
  is appended, which is what \<open>AList.update\<close> does.
\<close>

definition assign :: "string \<Rightarrow> dtype \<Rightarrow> (row \<Rightarrow> cell) \<Rightarrow> frame \<Rightarrow> frame" where
  "assign c d f df =
     \<lparr>columns = AList.update c d (columns df),
      rows = map (\<lambda>r. r\<lparr>cells := AList.update c (f r) (cells r)\<rparr>) (rows df)\<rparr>"

text \<open>
  \<open>(df["time_min"] - info["time"]).dt.total_seconds() / 3600\<close>, for one timestamp.
\<close>

definition hours_between :: "int \<Rightarrow> int \<Rightarrow> pyfloat" where
  "hours_between t eruption_time = Fin (of_int (t - eruption_time) / 3600)"

text \<open>
  \<open>df[(df["time_min"] >= start) & (df["time_min"] <= end)]\<close> with
  \<open>start = info["time"] - pd.Timedelta(hours=82)\<close> and
  \<open>end = info["time"] + pd.Timedelta(hours=24)\<close>.
\<close>

definition window_filter :: "int \<Rightarrow> frame \<Rightarrow> frame" where
  "window_filter eruption_time df =
     (let start_time = eruption_time - 82 * 3600;
          end_time = eruption_time + 24 * 3600
      in df\<lparr>rows := filter (\<lambda>r. time_min r \<ge> start_time \<and> time_min r \<le> end_time) (rows df)\<rparr>)"

text \<open>
  \<open>df[(df["hours_to_eruption"] >= -80) & (df["hours_to_eruption"] <= 24)]\<close>.
\<close>

definition hours_filter :: "frame \<Rightarrow> frame" where
  "hours_filter df =
     df\<lparr>rows := filter (\<lambda>r. fl_ge (get_num r ''hours_to_eruption'') (Fin (- 80))
                            \<and> fl_le (get_num r ''hours_to_eruption'') (Fin 24)) (rows df)\<rparr>"

text \<open>
  \<open>df.set_index("time_min").resample("10min").mean(numeric_only=True).reset_index()\<close>.
  The bins of \<open>resample("10min")\<close> are closed on the left and labelled by their left edge,
  and they start on whole multiples of ten minutes: the bin of a timestamp \<open>t\<close> is number
  \<open>t div 600\<close> (\<open>div\<close> rounds down) and its label is \<open>600 * (t div 600)\<close>. The
  result has one row for every bin from the first timestamp's to the last one's, also for
  a bin no row falls in, whose means are \<open>NaN\<close>; only the numeric columns are kept.
\<close>

definition bin_of :: "int \<Rightarrow> int" where
  "bin_of t = t div 600"

definition numeric_columns :: "frame \<Rightarrow> string list" where
  "numeric_columns df = map fst (filter (\<lambda>cd. snd cd = Numeric) (columns df))"

definition bin_mean :: "frame \<Rightarrow> int \<Rightarrow> string \<Rightarrow> pyfloat" where
  "bin_mean df k c =
     mean_skipna (map (\<lambda>r. get_num r c) (filter (\<lambda>r. bin_of (time_min r) = k) (rows df)))"

definition resample_10min_mean :: "frame \<Rightarrow> frame" where
  "resample_10min_mean df =
     (let num = numeric_columns df;
          ks = map (\<lambda>r. bin_of (time_min r)) (rows df)
      in \<lparr>columns = map (\<lambda>c. (c, Numeric)) num,
          rows = (if ks = [] then []
                  else map (\<lambda>k. \<lparr>time_min = 600 * k,
                                  cells = map (\<lambda>c. (c, Num (bin_mean df k c))) num\<rparr>)
                           [fold min ks (hd ks) .. fold max ks (hd ks)])\<rparr>)"

text \<open>
  \<open>pd.concat(frames, ignore_index=True)\<close>: the rows of the frames in order, under the
  union of their columns in order of first appearance.
\<close>

definition concat_frames :: "frame list \<Rightarrow> frame" where
  "concat_frames frames =
     \<lparr>columns = fold (\<lambda>df acc. acc @ filter (\<lambda>cd. fst cd \<notin> set (map fst acc)) (columns df))
                     frames [],
      rows = concat (map rows frames)\<rparr>"

section \<open>Alignment of the selected eruptions\<close>

text \<open>
  The part the two alignment routines share, line for line
  (\<^verbatim>\<open>src/dashboard_v2/app.py\<close> 227 to 235, \<^verbatim>\<open>src/Dashboard/app.py\<close> 132
  to 144, up to the colour): the hours to the eruption of every row, the cut to
  \<open>[-80, 24]\<close>, the resampling, the hours again from the resampled timestamps, and the
  eruption's name.
\<close>

definition align_resample :: "int \<Rightarrow> string \<Rightarrow> frame \<Rightarrow> frame" where
  "align_resample eruption_time name df =
     (let df1 = assign ''hours_to_eruption'' Numeric
                  (\<lambda>r. Num (hours_between (time_min r) eruption_time)) df;
          df2 = hours_filter df1;
          resampled = resample_10min_mean df2;
          resampled1 = assign ''hours_to_eruption'' Numeric
                  (\<lambda>r. Num (hours_between (time_min r) eruption_time)) resampled
      in assign ''eruption'' Object (\<lambda>r. Str name) resampled1)"

record eruption_info =
  file_name :: string
  time :: int

text \<open>The en dash of the eruption names, as its UTF-8 bytes.\<close>

definition en_dash :: string where
  "en_dash = [CHR 0xE2, CHR 0x80, CHR 0x93]"

text \<open>
  \<^verbatim>\<open>src/dashboard_v2/app.py\<close>, lines 25 to 41: the tables \<open>eruptions\<close> and
  \<open>color_map\<close>. The eruption instants are in seconds since the epoch (UTC).
\<close>

definition eruptions :: "(string \<times> eruption_info) list" where
  "eruptions =
     [(''24 Aug 2015 '' @ en_dash @ '' 16:50 UTC'',
         \<lparr>file_name = ''2015_08_24_19h_50_UTC_pf_aggregated_1min_1Hz.csv'', time = 1440435000\<rparr>),
      (''11 Sep 2016 '' @ en_dash @ '' 04:05 UTC'',
         \<lparr>file_name = ''2016_09_11_06h_41_UTC_pf_aggregated_1min_1Hz.csv'', time = 1473566700\<rparr>),
      (''25 Oct 2019 '' @ en_dash @ '' 12:40 UTC'',
         \<lparr>file_name = ''2019_10_25_12h_40_UTC_pf_aggregated_1min_1Hz.csv'', time = 1572007200\<rparr>),
      (''07 Dec 2020 '' @ en_dash @ '' 00:40 UTC'',
         \<lparr>file_name = ''2020_12_07_02h_40_UTC_pf_aggregated_1min_1Hz.csv'', time = 1607301600\<rparr>),
      (''19 Sep 2022 '' @ en_dash @ '' 06:23 UTC'',
         \<lparr>file_name = ''2022_09_19_06h_23_UTC_pf_aggregated_1min_1Hz.csv'', time = 1663568580\<rparr>),
      (''02 Jul 2023 '' @ en_dash @ '' 04:30 UTC'',
         \<lparr>file_name = ''2023_07_02_04h_30_UTC_pf_aggregated_1min_1Hz.csv'', time = 1688272200\<rparr>)]"

definition color_map :: "(string \<times> string) list" where
  "color_map =
     [(''24 Aug 2015 '' @ en_dash @ '' 16:50 UTC'', ''#e6194B''),
      (''11 Sep 2016 '' @ en_dash @ '' 04:05 UTC'', ''#f58231''),
      (''25 Oct 2019 '' @ en_dash @ '' 12:40 UTC'', ''#3cb44b''),
      (''07 Dec 2020 '' @ en_dash @ '' 00:40 UTC'', ''#42d4f4''),
      (''19 Sep 2022 '' @ en_dash @ '' 06:23 UTC'', ''#4363d8''),
      (''02 Jul 2023 '' @ en_dash @ '' 04:30 UTC'', ''#911eb4'')]"

text \<open>
  What \<^verbatim>\<open>src/dashboard_v2/app.py\<close> reads from outside: whether a file of the data
  directory exists, what \<open>pd.read_csv\<close> followed by \<open>pd.to_datetime\<close> on \<open>time_min\<close>
  gives for it (a frame, or the exception either raises), and \<open>preprocess_data\<close> of the
  module \<^verbatim>\<open>preprocess_seismic\<close>, which is not among the sources and is taken as it
  comes: any function from frames to frames that may raise.
\<close>

record world =
  path_exists :: "string \<Rightarrow> bool"
  read_csv :: "string \<Rightarrow> exn + frame"
  preprocess_data :: "frame \<Rightarrow> exn + frame"

text \<open>
  \<^verbatim>\<open>src/dashboard_v2/app.py\<close>, lines 213 to 239: the \<open>try\<close> block of one
  round of the loop. It gives the frame to append, if any, and the message shown, if any;
  an exception raised in the block is the value \<open>Inl\<close>, which the \<open>except\<close> clause of
  \<open>load_one\<close> below turns into a message.
\<close>

definition try_block :: "world \<Rightarrow> string \<Rightarrow> eruption_info \<Rightarrow> exn + (message list \<times> frame option)" where
  "try_block w name info =
     (case read_csv w (file_name info) of Inl e \<Rightarrow> Inl e
      | Inr df_read \<Rightarrow>
     (case preprocess_data w df_read of Inl e \<Rightarrow> Inl e
      | Inr df_pre \<Rightarrow>
     (let df_temp = window_filter (time info) df_pre in
      if rows df_temp = [] then Inr ([Warning (''No data in window for '' @ name)], None)
      else
        (let resampled = align_resample (time info) name df_temp in
         case map_of color_map name of None \<Rightarrow> Inl (KeyError name)
         | Some c \<Rightarrow> Inr ([], Some (assign ''color'' Object (\<lambda>r. Str c) resampled))))))"

text \<open>
  One round of the loop, lines 207 to 239. \<open>eruptions[name]\<close> is outside the \<open>try\<close>:
  a name that is not in the table raises \<open>KeyError\<close> out of the routine.
\<close>

definition load_one :: "world \<Rightarrow> string \<Rightarrow> exn + (message list \<times> frame option)" where
  "load_one w name =
     (case map_of eruptions name of None \<Rightarrow> Inl (KeyError name)
      | Some info \<Rightarrow>
          if \<not> path_exists w (file_name info) then
            Inr ([Warning (''File not found: '' @ file_name info)], None)
          else
            (case try_block w name info of
               Inl e \<Rightarrow> Inr ([Error (''Error loading '' @ name @ '': '' @ exn_str e)], None)
             | Inr res \<Rightarrow> Inr res))"

text \<open>The loop: the messages shown and the list \<open>all_frames\<close>.\<close>

fun load_loop :: "world \<Rightarrow> string list \<Rightarrow> exn + (message list \<times> frame list)" where
  "load_loop w [] = Inr ([], [])"
| "load_loop w (name # rest) =
     (case load_one w name of Inl e \<Rightarrow> Inl e
      | Inr (msgs, fo) \<Rightarrow>
     (case load_loop w rest of Inl e \<Rightarrow> Inl e
      | Inr (msgs', all_frames) \<Rightarrow>
          Inr (msgs @ msgs', (case fo of None \<Rightarrow> all_frames | Some f \<Rightarrow> f # all_frames))))"

text \<open>
  \<^verbatim>\<open>src/dashboard_v2/app.py\<close>, lines 204 to 241: \<open>load_aligned_selected\<close>.
  (\<open>st.cache_data\<close> only stores the result.)
\<close>

definition load_aligned_selected :: "world \<Rightarrow> string list \<Rightarrow> exn + (message list \<times> frame)" where
  "load_aligned_selected w selected_list =
     (case load_loop w selected_list of Inl e \<Rightarrow> Inl e
      | Inr (msgs, all_frames) \<Rightarrow>
          Inr (msgs, if all_frames \<noteq> [] then concat_frames all_frames else empty_frame))"

text \<open>
  What \<^verbatim>\<open>src/Dashboard/app.py\<close> imports from modules that are not among the
  sources: the tables \<open>eruptions\<close> and \<open>color_map\<close> of \<^verbatim>\<open>constants\<close> and the
  function \<open>load_eruption_file\<close> of \<^verbatim>\<open>data_loader\<close>, which gives the frame of an
  eruption or raises. They are taken as they come.
\<close>

record modules =
  constants_eruptions :: "(string \<times> eruption_info) list"
  constants_color_map :: "(string \<times> string) list"
  load_eruption_file :: "string \<Rightarrow> exn + frame"

text \<open>
  \<open>df[df["station"].isin(selected_stations)]\<close>: \<open>KeyError\<close> without a column
  \<open>station\<close>; the selected stations are strings, which no number equals.
\<close>

definition station_isin :: "string list \<Rightarrow> frame \<Rightarrow> exn + frame" where
  "station_isin selected_stations df =
     (if ''station'' \<notin> set (map fst (columns df)) then Inl (KeyError ''station'')
      else Inr (df\<lparr>rows := filter (\<lambda>r. case get_cell r ''station'' of
                                            Str s \<Rightarrow> s \<in> set selected_stations
                                          | _ \<Rightarrow> False) (rows df)\<rparr>))"

text \<open>
  \<^verbatim>\<open>src/Dashboard/app.py\<close>, lines 117 to 146: the loop of the routine with a
  station list. Nothing is caught here: an exception leaves the routine.
\<close>

fun Dashboard_loop :: "modules \<Rightarrow> string list \<Rightarrow> string list \<Rightarrow> exn + frame list" where
  "Dashboard_loop m selected_stations [] = Inr []"
| "Dashboard_loop m selected_stations (name # rest) =
     (case load_eruption_file m name of Inl e \<Rightarrow> Inl e
      | Inr df_loaded \<Rightarrow>
     (case station_isin selected_stations df_loaded of Inl e \<Rightarrow> Inl e
      | Inr df_stations \<Rightarrow>
     (case map_of (constants_eruptions m) name of None \<Rightarrow> Inl (KeyError name)
      | Some info \<Rightarrow>
     (let df = window_filter (time info) df_stations in
      if rows df = [] then Dashboard_loop m selected_stations rest
      else
        (let res = align_resample (time info) name df in
         case map_of (constants_color_map m) name of None \<Rightarrow> Inl (KeyError name)
         | Some c \<Rightarrow>
        (case Dashboard_loop m selected_stations rest of Inl e \<Rightarrow> Inl e
         | Inr frames \<Rightarrow> Inr (assign ''color'' Object (\<lambda>r. Str c) res # frames)))))))"

text \<open>
  \<^verbatim>\<open>src/Dashboard/app.py\<close>, lines 115 to 148: \<open>load_aligned_selected\<close> with
  its two arguments.
\<close>

definition Dashboard_load_aligned_selected :: "modules \<Rightarrow> string list \<Rightarrow> string list \<Rightarrow> exn + frame" where
  "Dashboard_load_aligned_selected m selected_list selected_stations =
     (case Dashboard_loop m selected_stations selected_list of Inl e \<Rightarrow> Inl e
      | Inr frames \<Rightarrow> Inr (if frames \<noteq> [] then concat_frames frames else empty_frame))"

section \<open>The spectrogram section\<close>


section \<open>The single-file dashboard\<close>







section \<open>Notions used in the statements\<close>

text \<open>
  The timestamps of a frame that pass the cut to \<open>[-80, 24]\<close> hours around the eruption
  instant \<open>e\<close>: 288000 and 86400 seconds.
\<close>

definition kept_times :: "int \<Rightarrow> frame \<Rightarrow> int list" where
  "kept_times e df = filter (\<lambda>t. e - 288000 \<le> t \<and> t \<le> e + 86400) (map time_min (rows df))"

text \<open>
  \<^verbatim>\<open>src/dashboard_v2/app.py\<close>, line 256 (and each chart after it):
  \<open>sub = df_compare[df_compare["eruption"] == eruption]\<close>, the rows of one eruption in
  the combined table.
\<close>

definition sub :: "frame \<Rightarrow> string \<Rightarrow> row list" where
  "sub df_compare eruption =
     filter (\<lambda>r. get_cell r ''eruption'' = Str eruption) (rows df_compare)"

section \<open>A worked example\<close>

text \<open>
  Two files of the data directory. The one of the eruption of 24 Aug 2015 (16:50:00 UTC,
  1440435000) has two rows in the ten minutes from 15:50:00 and one row at 16:10:00; the
  one of the eruption of 19 Sep 2022 (06:23:00 UTC, 1663568580) has one row exactly 80
  hours before the eruption. No other file exists, and \<open>preprocess_data\<close> changes nothing.
\<close>

definition example_frame_2015 :: frame where
  "example_frame_2015 =
     \<lparr>columns = [(''station'', Object), (''amplitude_mean'', Numeric)],
      rows = [\<lparr>time_min = 1440431400,
                cells = [(''station'', Str ''BON''), (''amplitude_mean'', Num (Fin 100))]\<rparr>,
              \<lparr>time_min = 1440431460,
                cells = [(''station'', Str ''DSM''), (''amplitude_mean'', Num (Fin 300))]\<rparr>,
              \<lparr>time_min = 1440432600,
                cells = [(''station'', Str ''BON''), (''amplitude_mean'', Num (Fin 50))]\<rparr>]\<rparr>"

definition example_frame_2022 :: frame where
  "example_frame_2022 =
     \<lparr>columns = [(''station'', Object), (''amplitude_mean'', Numeric)],
      rows = [\<lparr>time_min = 1663280580,
                cells = [(''station'', Str ''BON''), (''amplitude_mean'', Num (Fin 100))]\<rparr>]\<rparr>"

definition example_world :: world where
  "example_world =
     \<lparr>path_exists = (\<lambda>f. f = ''2015_08_24_19h_50_UTC_pf_aggregated_1min_1Hz.csv''
                          \<or> f = ''2022_09_19_06h_23_UTC_pf_aggregated_1min_1Hz.csv''),
      read_csv = (\<lambda>f. if f = ''2015_08_24_19h_50_UTC_pf_aggregated_1min_1Hz.csv''
                       then Inr example_frame_2015 else Inr example_frame_2022),
      preprocess_data = (\<lambda>df. Inr df)\<rparr>"

definition example_selection :: "string list" where
  "example_selection =
     [''24 Aug 2015 '' @ en_dash @ '' 16:50 UTC'',
      ''11 Sep 2016 '' @ en_dash @ '' 04:05 UTC'',
      ''19 Sep 2022 '' @ en_dash @ '' 06:23 UTC'']"

text \<open>The combined table of the example.\<close>

definition example_aligned :: frame where
  "example_aligned =
     \<lparr>columns = [(''amplitude_mean'', Numeric), (''hours_to_eruption'', Numeric),
                 (''eruption'', Object), (''color'', Object)],
      rows = [\<lparr>time_min = 1440431400,
                cells = [(''amplitude_mean'', Num (Fin 200)),
                         (''hours_to_eruption'', Num (Fin (- 1))),
                         (''eruption'', Str (''24 Aug 2015 '' @ en_dash @ '' 16:50 UTC'')),
                         (''color'', Str ''#e6194B'')]\<rparr>,
              \<lparr>time_min = 1440432000,
                cells = [(''amplitude_mean'', Num NaN),
                         (''hours_to_eruption'', Num (Fin (- 5 / 6))),
                         (''eruption'', Str (''24 Aug 2015 '' @ en_dash @ '' 16:50 UTC'')),
                         (''color'', Str ''#e6194B'')]\<rparr>,
              \<lparr>time_min = 1440432600,
                cells = [(''amplitude_mean'', Num (Fin 50)),
                         (''hours_to_eruption'', Num (Fin (- 2 / 3))),
                         (''eruption'', Str (''24 Aug 2015 '' @ en_dash @ '' 16:50 UTC'')),
                         (''color'', Str ''#e6194B'')]\<rparr>,
              \<lparr>time_min = 1663280400,
                cells = [(''amplitude_mean'', Num (Fin 100)),
                         (''hours_to_eruption'', Num (Fin (- 1601 / 20))),
                         (''eruption'', Str (''19 Sep 2022 '' @ en_dash @ '' 06:23 UTC'')),
                         (''color'', Str ''#4363d8'')]\<rparr>]\<rparr>"

text \<open>
  For \<^verbatim>\<open>src/Dashboard/app.py\<close>: the tables of \<^verbatim>\<open>src/dashboard_v2/app.py\<close> and
  a loader that gives the frame of 2015 for every eruption.
\<close>

definition example_modules :: modules where
  "example_modules =
     \<lparr>constants_eruptions = eruptions, constants_color_map = color_map,
      load_eruption_file = (\<lambda>name. Inr example_frame_2015)\<rparr>"


section \<open>Properties of the risk-level classifiers\<close>

lemma fl_gt_Fin [simp]: "fl_gt (Fin a) (Fin b) = (a > b)"
  by (simp add: fl_gt_def)

lemma fl_gt_mono: "fl_le x y \<Longrightarrow> fl_gt x (Fin c) \<Longrightarrow> fl_gt y (Fin c)"
  by (cases x; cases y) (auto simp: fl_gt_def)

text \<open>
  C3, as the code has it. The three classifiers are monotonic: when the input grows (in
  the order of Python's \<open><=\<close>, which no \<open>NaN\<close> takes part in), the severity of the
  tier does not fall. In \<^verbatim>\<open>src/dashboard_v2/app.py\<close> the input 2000 is above the
  threshold 1500 and gets the tier \<open>HIGH (<12h)\<close>, the third of five (the one
  \<^verbatim>\<open>src/Dashboard/app.py\<close> labels with the French word for elevated); 6000 gets
  \<open>ERUPTION\<close>; 0 and \<open>NaN\<close> get \<open>NORMAL\<close>.
\<close>

theorem risk_classifier_monotone:
  "(fl_le x y \<longrightarrow> severity (risk_level x) \<le> severity (risk_level y)
                \<and> severity (Dashboard_risk_level x) \<le> severity (Dashboard_risk_level y)
                \<and> severity (risk_text x) \<le> severity (risk_text y))
   \<and> fst (risk_level (Fin 2000)) = ''HIGH (<12h)''
   \<and> severity (risk_level (Fin 2000)) = 2
   \<and> fst (risk_level (Fin 6000)) = ''ERUPTION''
   \<and> fst (risk_level (Fin 0)) = ''NORMAL''
   \<and> fst (risk_level NaN) = ''NORMAL''"
proof -
  have mono1: "severity (risk_level x) \<le> severity (risk_level y)" if "fl_le x y"
    using fl_gt_mono [OF that] by (auto simp: risk_level_def severity_def)
  have mono2: "severity (risk_text x) \<le> severity (risk_text y)" if "fl_le x y"
    using fl_gt_mono [OF that] by (auto simp: risk_text_def severity_def)
  have mono3: "severity (Dashboard_risk_level x) \<le> severity (Dashboard_risk_level y)"
    if "fl_le x y"
    using fl_gt_mono [OF that] by (auto simp: Dashboard_risk_level_def severity_def)
  have ex: "fst (risk_level (Fin 2000)) = ''HIGH (<12h)''"
    "severity (risk_level (Fin 2000)) = 2"
    "fst (risk_level (Fin 6000)) = ''ERUPTION''"
    "fst (risk_level (Fin 0)) = ''NORMAL''" "fst (risk_level NaN) = ''NORMAL''"
    by (simp_all add: risk_level_def fl_gt_def severity_def)
  from mono1 mono2 mono3 ex show ?thesis by blast
qed

theorem risk_classifier_monotone_witness:
  "fl_le (Fin 900) (Fin 4000)
   \<and> severity (risk_level (Fin 900)) = 1 \<and> severity (risk_level (Fin 4000)) = 3
   \<and> severity (Dashboard_risk_level (Fin 900)) = 1
   \<and> severity (Dashboard_risk_level (Fin 4000)) = 3
   \<and> severity (risk_text (Fin 900)) = 0 \<and> severity (risk_text (Fin 4000)) = 1"
  using risk_classifier_monotone [of "Fin 900" "Fin 4000"]
  by (simp add: risk_level_def Dashboard_risk_level_def risk_text_def severity_def)

text \<open>
  C3 as stated fails at the input 2000: in \<^verbatim>\<open>src/dashboard_v2/app.py\<close> the tier is
  \<open>HIGH (<12h)\<close>, not \<open>ELEVATED (<48h)\<close>, and in \<^verbatim>\<open>src/app.py\<close> it is the
  lowest one.
\<close>

theorem risk_2000_not_elevated:
  "risk_level (Fin 2000) = (''HIGH (<12h)'', ''#ff6600'', orange_circle)
   \<and> risk_level (Fin 2000) \<noteq> (''ELEVATED (<48h)'', ''#ffd700'', yellow_circle)
   \<and> fst (risk_level (Fin 2000)) \<noteq> ''ELEVATED (<48h)''
   \<and> fst (risk_text (Fin 2000)) = ''Pas de risque''"
  by (simp add: risk_level_def risk_text_def)

text \<open>
  C4, as the code has it. The comparisons are strict, so an input equal to a threshold
  gets the lower of the two tiers that meet there: the tier of every input up to the
  threshold, while every input above it gets a higher one. The thresholds are those of
  \<^verbatim>\<open>src/dashboard_v2/app.py\<close> (and \<^verbatim>\<open>src/Dashboard/app.py\<close>) and of
  \<^verbatim>\<open>src/app.py\<close>, each with the severity of the tier below it.
\<close>

theorem threshold_tie_lower_tier:
  "((t, i) \<in> set [(800, 0), (1500, 1), (3000, 2), (5000, 3)] \<longrightarrow>
      severity (risk_level (Fin t)) = i
      \<and> severity (Dashboard_risk_level (Fin t)) = i
      \<and> (\<forall>x. x > t \<longrightarrow> severity (risk_level (Fin x)) \<ge> i + 1
                    \<and> severity (Dashboard_risk_level (Fin x)) \<ge> i + 1)
      \<and> (\<forall>x. x \<le> t \<longrightarrow> severity (risk_level (Fin x)) \<le> i
                    \<and> severity (Dashboard_risk_level (Fin x)) \<le> i))
   \<and> ((t, i) \<in> set [(3000, 0), (10000, 1), (30000, 2), (100000, 3)] \<longrightarrow>
      severity (risk_text (Fin t)) = i
      \<and> (\<forall>x. x > t \<longrightarrow> severity (risk_text (Fin x)) \<ge> i + 1)
      \<and> (\<forall>x. x \<le> t \<longrightarrow> severity (risk_text (Fin x)) \<le> i))"
  by (auto simp: risk_level_def Dashboard_risk_level_def risk_text_def severity_def)

theorem threshold_tie_lower_tier_witness:
  "severity (risk_level (Fin 5000)) = 3 \<and> severity (risk_level (Fin 5001)) \<ge> 4
   \<and> severity (Dashboard_risk_level (Fin 5000)) = 3
   \<and> severity (risk_text (Fin 3000)) = 0 \<and> severity (risk_text (Fin 3001)) \<ge> 1"
  using threshold_tie_lower_tier [of 5000 3] threshold_tie_lower_tier [of 3000 0]
  by simp

text \<open>
  C4 as stated fails at the threshold 5000: the tier is \<open>IMMINENT (<1h)\<close>, the lower
  of the two, not \<open>ERUPTION\<close>.
\<close>

theorem tie_5000_not_eruption:
  "risk_level (Fin 5000) = (''IMMINENT (<1h)'', ''#e60000'', red_circle)
   \<and> risk_level (Fin 5000) \<noteq> (''ERUPTION'', ''#9f00e0'', purple_square)
   \<and> severity (risk_level (Fin 5000)) = 3"
  by (simp add: risk_level_def severity_def)

section \<open>Properties of the alignment\<close>

text \<open>The routine of \<^verbatim>\<open>src/dashboard_v2/app.py\<close> on the worked example.\<close>

lemma example_run:
  "load_aligned_selected example_world example_selection =
     Inr ([Warning ''File not found: 2016_09_11_06h_41_UTC_pf_aggregated_1min_1Hz.csv''],
          example_aligned)"
  by code_simp

lemma get_cell_update:
  "get_cell (r\<lparr>cells := AList.update c v cs\<rparr>) c' =
     (if c' = c then v else get_cell (r\<lparr>cells := cs\<rparr>) c')"
  by (simp add: get_cell_def update_conv')

lemma get_num_update:
  "get_num (r\<lparr>cells := AList.update c v cs\<rparr>) c' =
     (if c' = c then (case v of Num x \<Rightarrow> x | _ \<Rightarrow> NaN) else get_num (r\<lparr>cells := cs\<rparr>) c')"
  by (simp add: get_num_def get_cell_update)

lemma rows_assign: "rows (assign c d f df) = map (\<lambda>r. r\<lparr>cells := AList.update c (f r) (cells r)\<rparr>) (rows df)"
  by (simp add: assign_def)


lemma times_assign: "map time_min (rows (assign c d f df)) = map time_min (rows df)"
  by (simp add: assign_def comp_def)

lemma in_range_hours:
  "(fl_ge (hours_between t e) (Fin (- 80)) \<and> fl_le (hours_between t e) (Fin 24))
   = (e - 288000 \<le> t \<and> t \<le> e + 86400)"
proof -
  have "((- 80 :: rat) \<le> of_int (t - e) / 3600) = (of_int (- 288000) \<le> (of_int (t - e) :: rat))"
    by (simp add: pos_le_divide_eq)
  moreover have "((of_int (t - e) :: rat) / 3600 \<le> 24) = ((of_int (t - e) :: rat) \<le> of_int 86400)"
    by (simp add: pos_divide_le_eq)
  ultimately show ?thesis
    unfolding hours_between_def fl_ge_def of_int_le_iff by (simp) linarith
qed

lemma times_hours_filter:
  "map time_min (rows (hours_filter (assign ''hours_to_eruption'' Numeric
       (\<lambda>r. Num (hours_between (time_min r) e)) df))) = kept_times e df"
  by (simp add: hours_filter_def rows_assign filter_map comp_def get_num_update
        in_range_hours kept_times_def)

lemma times_resample:
  "map time_min (rows (resample_10min_mean df)) =
     (if rows df = [] then []
      else map (\<lambda>k. 600 * k) [Min (set (map (\<lambda>r. bin_of (time_min r)) (rows df))) ..
                                 Max (set (map (\<lambda>r. bin_of (time_min r)) (rows df)))])"
proof (cases "rows df")
  case Nil
  then show ?thesis by (simp add: resample_10min_mean_def)
next
  case (Cons r rs)
  have "fold min (map (\<lambda>r. bin_of (time_min r)) rs) (bin_of (time_min r))
          = Min (set (map (\<lambda>r. bin_of (time_min r)) (r # rs)))"
    by (simp only: list.map Min.set_eq_fold)
  moreover have "fold max (map (\<lambda>r. bin_of (time_min r)) rs) (bin_of (time_min r))
          = Max (set (map (\<lambda>r. bin_of (time_min r)) (r # rs)))"
    by (simp only: list.map Max.set_eq_fold)
  ultimately show ?thesis using Cons
    by (simp add: resample_10min_mean_def Let_def comp_def)
qed

lemma times_align_resample:
  "map time_min (rows (align_resample e name df)) =
     (if kept_times e df = [] then []
      else map (\<lambda>k. 600 * k) [Min (set (map bin_of (kept_times e df))) ..
                                 Max (set (map bin_of (kept_times e df)))])"
proof -
  let ?df2 = "hours_filter (assign ''hours_to_eruption'' Numeric
       (\<lambda>r. Num (hours_between (time_min r) e)) df)"
  have t: "map time_min (rows ?df2) = kept_times e df" by (rule times_hours_filter)
  have b: "map (\<lambda>r. bin_of (time_min r)) (rows ?df2) = map bin_of (kept_times e df)"
    using arg_cong [OF t, of "map bin_of"] by (simp add: comp_def)
  have e: "(rows ?df2 = []) = (kept_times e df = [])"
    using arg_cong [OF t, of length] by (metis map_is_Nil_conv t)
  show ?thesis
    unfolding align_resample_def Let_def times_assign times_resample b e ..
qed

lemma cells_align_resample:
  "r \<in> set (rows (align_resample e name df)) \<Longrightarrow>
     get_num r ''hours_to_eruption'' = hours_between (time_min r) e
     \<and> get_cell r ''eruption'' = Str name"
  by (auto simp: align_resample_def Let_def rows_assign get_num_update get_cell_update)

lemma bin_label_bounds:
  assumes "ts \<noteq> []" and "\<forall>t\<in>set ts. lo \<le> t \<and> t \<le> hi"
    and "Min (set (map bin_of ts)) \<le> k" and "k \<le> Max (set (map bin_of ts))"
  shows "lo - lo mod 600 \<le> 600 * k \<and> 600 * k \<le> hi"
proof -
  have ne: "set (map bin_of ts) \<noteq> {}" using assms(1) by simp
  have "Min (set (map bin_of ts)) \<in> set (map bin_of ts)"
    using ne by (intro Min_in) simp_all
  then obtain t0 where t0: "t0 \<in> set ts" "Min (set (map bin_of ts)) = bin_of t0" by auto
  have "Max (set (map bin_of ts)) \<in> set (map bin_of ts)"
    using ne by (intro Max_in) simp_all
  then obtain t1 where t1: "t1 \<in> set ts" "Max (set (map bin_of ts)) = bin_of t1" by auto
  have "lo div 600 \<le> t0 div 600" using assms(2) t0(1) by (simp add: zdiv_mono1)
  then have "lo div 600 \<le> k" using assms(3) t0(2) by (simp add: bin_of_def)
  then have a: "lo - lo mod 600 \<le> 600 * k"
    by (simp add: minus_mod_eq_mult_div)
  have "k \<le> t1 div 600" using assms(4) t1(2) by (simp add: bin_of_def)
  then have "600 * k \<le> 600 * (t1 div 600)" by simp
  also have "\<dots> \<le> t1" by (simp add: minus_mod_eq_mult_div [symmetric])
  also have "\<dots> \<le> hi" using assms(2) t1(1) by simp
  finally show ?thesis using a by simp
qed

lemma time_align_resample_bounds:
  assumes "r \<in> set (rows (align_resample e name df))"
  shows "600 dvd time_min r \<and> e - 288000 - e mod 600 \<le> time_min r \<and> time_min r \<le> e + 86400"
proof -
  have "time_min r \<in> set (map time_min (rows (align_resample e name df)))"
    using assms by simp
  then have ne: "kept_times e df \<noteq> []"
    and "time_min r \<in> set (map (\<lambda>k. 600 * k) [Min (set (map bin_of (kept_times e df))) ..
                                 Max (set (map bin_of (kept_times e df)))])"
    unfolding times_align_resample by (auto split: if_splits)
  then obtain k where k: "time_min r = 600 * k" "Min (set (map bin_of (kept_times e df))) \<le> k"
    "k \<le> Max (set (map bin_of (kept_times e df)))" by auto
  have "\<forall>t\<in>set (kept_times e df). e - 288000 \<le> t \<and> t \<le> e + 86400"
    by (simp add: kept_times_def)
  from bin_label_bounds [OF ne this k(2) k(3)]
  have "e - 288000 - (e - 288000) mod 600 \<le> 600 * k \<and> 600 * k \<le> e + 86400" .
  moreover have "(e - 288000) mod 600 = e mod 600"
    using mod_diff_right_eq [of e 288000 600] by simp
  ultimately show ?thesis using k(1) by simp
qed

lemma spaced_labels:
  assumes "Suc i < length [a..b]"
  shows "map (\<lambda>k. 600 * k) [a..b] ! Suc i = map (\<lambda>k. 600 * k) [a..b] ! i + 600"
proof -
  have "int (Suc i) + a \<le> b" using assms by simp
  then have "[a..b] ! Suc i = a + int (Suc i)" "[a..b] ! i = a + int i"
    by simp_all
  then show ?thesis using assms by simp
qed

lemma times_align_resample_spaced:
  assumes "Suc i < length (rows (align_resample e name df))"
  shows "time_min (rows (align_resample e name df) ! Suc i)
           = time_min (rows (align_resample e name df) ! i) + 600"
proof -
  let ?ts = "map time_min (rows (align_resample e name df))"
  have len: "Suc i < length ?ts" using assms by simp
  have "?ts ! Suc i = ?ts ! i + 600"
  proof (cases "kept_times e df = []")
    case True
    then show ?thesis using len unfolding times_align_resample by simp
  next
    case False
    then show ?thesis using len unfolding times_align_resample
      by (simp only: if_False length_map spaced_labels)
  qed
  then show ?thesis using assms by simp
qed

lemma rows_color:
  "r \<in> set (rows (assign ''color'' Object (\<lambda>r. Str c) df)) \<Longrightarrow>
     \<exists>r0\<in>set (rows df). time_min r = time_min r0
        \<and> get_num r ''hours_to_eruption'' = get_num r0 ''hours_to_eruption''
        \<and> get_cell r ''eruption'' = get_cell r0 ''eruption''"
  by (auto simp: rows_assign get_num_update get_cell_update)

lemma aligned_row:
  assumes "r \<in> set (rows (assign ''color'' Object (\<lambda>r. Str c) (align_resample e name df)))"
  shows "get_cell r ''eruption'' = Str name
     \<and> get_num r ''hours_to_eruption'' = hours_between (time_min r) e
     \<and> 600 dvd time_min r
     \<and> e - 288000 - e mod 600 \<le> time_min r \<and> time_min r \<le> e + 86400"
proof -
  from rows_color [OF assms] obtain r0 where r0: "r0 \<in> set (rows (align_resample e name df))"
    "time_min r = time_min r0"
    "get_num r ''hours_to_eruption'' = get_num r0 ''hours_to_eruption''"
    "get_cell r ''eruption'' = get_cell r0 ''eruption''" by blast
  show ?thesis
    using cells_align_resample [OF r0(1)] time_align_resample_bounds [OF r0(1)] r0(2-4)
    by simp
qed

lemma hours_bounds:
  assumes "e - 288000 - e mod 600 \<le> t" and "t \<le> e + 86400"
  shows "\<exists>h. hours_between t e = Fin h \<and> - 80 - of_int (e mod 600) / 3600 \<le> h \<and> h \<le> 24"
proof -
  have "(of_int (- 288000 - e mod 600) :: rat) \<le> of_int (t - e)"
    using assms(1) unfolding of_int_le_iff by linarith
  then have a: "- 80 - of_int (e mod 600) / 3600 \<le> (of_int (t - e) :: rat) / 3600"
    by (simp add: field_simps)
  have "(of_int (t - e) :: rat) \<le> of_int 86400"
    using assms(2) unfolding of_int_le_iff by linarith
  then have b: "(of_int (t - e) :: rat) / 3600 \<le> 24"
    by (simp add: field_simps)
  show ?thesis unfolding hours_between_def using a b by blast
qed

lemma load_one_frame:
  assumes "load_one w name = Inr (msgs, Some f)"
  shows "\<exists>info c df. map_of eruptions name = Some info \<and> map_of color_map name = Some c
           \<and> f = assign ''color'' Object (\<lambda>r. Str c) (align_resample (time info) name df)"
  using assms
  by (auto simp: load_one_def try_block_def Let_def
        split: option.splits if_splits sum.splits)

lemma load_loop_frames:
  "load_loop w sel = Inr (msgs, frames) \<Longrightarrow> f \<in> set frames \<Longrightarrow>
     \<exists>name\<in>set sel. \<exists>ms. load_one w name = Inr (ms, Some f)"
proof (induction sel arbitrary: msgs frames)
  case Nil
  then show ?case by simp
next
  case (Cons n sel)
  from Cons.prems(1) obtain ms1 fo ms2 fr2 where
    one: "load_one w n = Inr (ms1, fo)" and rest: "load_loop w sel = Inr (ms2, fr2)"
    and fr: "frames = (case fo of None \<Rightarrow> fr2 | Some f \<Rightarrow> f # fr2)"
    by (auto split: sum.splits prod.splits)
  show ?case
  proof (cases "f \<in> set fr2")
    case True
    from Cons.IH [OF rest True] show ?thesis by auto
  next
    case False
    with Cons.prems(2) fr have "fo = Some f" by (cases fo) auto
    with one show ?thesis by auto
  qed
qed

lemma rows_concat_frames: "rows (concat_frames fs) = concat (map rows fs)"
  by (simp add: concat_frames_def)

lemma load_aligned_selected_rows:
  assumes "load_aligned_selected w sel = Inr (msgs, out)" and "r \<in> set (rows out)"
  shows "\<exists>name\<in>set sel. \<exists>info c df. map_of eruptions name = Some info
           \<and> r \<in> set (rows (assign ''color'' Object (\<lambda>r. Str c)
                                 (align_resample (time info) name df)))"
proof -
  from assms(1) obtain frames where loop: "load_loop w sel = Inr (msgs, frames)"
    and out: "out = (if frames \<noteq> [] then concat_frames frames else empty_frame)"
    by (auto simp: load_aligned_selected_def split: sum.splits prod.splits)
  from assms(2) out obtain f where f: "f \<in> set frames" "r \<in> set (rows f)"
    by (auto simp: rows_concat_frames empty_frame_def split: if_splits)
  from load_loop_frames [OF loop f(1)] obtain name ms where
    n: "name \<in> set sel" "load_one w name = Inr (ms, Some f)" by blast
  from load_one_frame [OF n(2)] f(2) n(1) show ?thesis by blast
qed

lemma Dashboard_loop_frames:
  "Dashboard_loop m st sel = Inr frames \<Longrightarrow> f \<in> set frames \<Longrightarrow>
     \<exists>name\<in>set sel. \<exists>info c df. map_of (constants_eruptions m) name = Some info
        \<and> f = assign ''color'' Object (\<lambda>r. Str c) (align_resample (time info) name df)"
proof (induction sel arbitrary: frames)
  case Nil
  then show ?case by simp
next
  case (Cons n sel)
  from Cons.prems(1) obtain df0 df1 info where
    l: "load_eruption_file m n = Inr df0" and s: "station_isin st df0 = Inr df1"
    and i: "map_of (constants_eruptions m) n = Some info"
    by (auto split: sum.splits option.splits)
  show ?case
  proof (cases "rows (window_filter (time info) df1) = []")
    case True
    with Cons.prems(1) l s i have "Dashboard_loop m st sel = Inr frames" by simp
    from Cons.IH [OF this Cons.prems(2)] show ?thesis by auto
  next
    case False
    with Cons.prems(1) l s i obtain c fr2 where c: "map_of (constants_color_map m) n = Some c"
      and rest: "Dashboard_loop m st sel = Inr fr2"
      and fr: "frames = assign ''color'' Object (\<lambda>r. Str c)
                  (align_resample (time info) n (window_filter (time info) df1)) # fr2"
      by (auto simp: Let_def split: sum.splits option.splits)
    show ?thesis
    proof (cases "f \<in> set fr2")
      case True
      from Cons.IH [OF rest True] show ?thesis by auto
    next
      case False
      with Cons.prems(2) fr i show ?thesis by auto
    qed
  qed
qed

lemma Dashboard_rows:
  assumes "Dashboard_load_aligned_selected m sel st = Inr out" and "r \<in> set (rows out)"
  shows "\<exists>name\<in>set sel. \<exists>info c df. map_of (constants_eruptions m) name = Some info
           \<and> r \<in> set (rows (assign ''color'' Object (\<lambda>r. Str c)
                                 (align_resample (time info) name df)))"
proof -
  from assms(1) obtain frames where loop: "Dashboard_loop m st sel = Inr frames"
    and out: "out = (if frames \<noteq> [] then concat_frames frames else empty_frame)"
    by (auto simp: Dashboard_load_aligned_selected_def split: sum.splits)
  from assms(2) out obtain f where f: "f \<in> set frames" "r \<in> set (rows f)"
    by (auto simp: rows_concat_frames empty_frame_def split: if_splits)
  from Dashboard_loop_frames [OF loop f(1)] f(2) show ?thesis by blast
qed

lemma aligned_row_hours:
  assumes "r \<in> set (rows (assign ''color'' Object (\<lambda>r. Str c) (align_resample e name df)))"
  shows "get_cell r ''eruption'' = Str name
     \<and> (\<exists>h. get_num r ''hours_to_eruption'' = Fin h
            \<and> - 80 - 1 / 6 < h \<and> h \<le> 24 \<and> (e mod 600 = 0 \<longrightarrow> - 80 \<le> h))"
proof -
  note a = aligned_row [OF assms]
  from a hours_bounds [of e "time_min r"] obtain h where
    h: "hours_between (time_min r) e = Fin h" "- 80 - of_int (e mod 600) / 3600 \<le> h" "h \<le> 24"
    by blast
  have "e mod 600 < 600" by simp
  then have "(of_int (e mod 600) :: rat) < of_int 600" unfolding of_int_less_iff .
  then have "(of_int (e mod 600) :: rat) / 3600 < 1 / 6" by simp
  with h(2) have "- 80 - 1 / 6 < h" by linarith
  moreover have "- 80 \<le> h" if "e mod 600 = 0" using h(2) that by simp
  ultimately show ?thesis using a h by auto
qed

text \<open>
  C1, as the code has it. Every row of the combined table, of either routine, carries the
  name of a selected eruption of the table, and its \<open>hours_to_eruption\<close> is a finite
  value that is at most 24 and above \<open>-80 - 1/6\<close>. The cut to \<open>[-80, 24]\<close> is made
  on the rows before the resampling; the value is then computed again from the label of
  the ten-minute bin, which lies up to ten minutes before the first row of the bin. When
  the eruption instant is a whole multiple of ten minutes the value is at least \<open>-80\<close>.
\<close>

theorem hours_to_eruption_window:
  "(load_aligned_selected w selected_list = Inr (msgs, out) \<and> r \<in> set (rows out) \<longrightarrow>
      (\<exists>name\<in>set selected_list. \<exists>info h. map_of eruptions name = Some info
          \<and> get_cell r ''eruption'' = Str name
          \<and> get_num r ''hours_to_eruption'' = Fin h
          \<and> - 80 - 1 / 6 < h \<and> h \<le> 24 \<and> (time info mod 600 = 0 \<longrightarrow> - 80 \<le> h)))
   \<and> (Dashboard_load_aligned_selected m selected_list' selected_stations = Inr out'
        \<and> r' \<in> set (rows out') \<longrightarrow>
      (\<exists>name\<in>set selected_list'. \<exists>info h. map_of (constants_eruptions m) name = Some info
          \<and> get_cell r' ''eruption'' = Str name
          \<and> get_num r' ''hours_to_eruption'' = Fin h
          \<and> - 80 - 1 / 6 < h \<and> h \<le> 24 \<and> (time info mod 600 = 0 \<longrightarrow> - 80 \<le> h)))"
proof (intro conjI impI; elim conjE)
  assume "load_aligned_selected w selected_list = Inr (msgs, out)" and "r \<in> set (rows out)"
  from load_aligned_selected_rows [OF this] obtain name info c df where
    n: "name \<in> set selected_list" "map_of eruptions name = Some info"
    and r: "r \<in> set (rows (assign ''color'' Object (\<lambda>r. Str c)
                                 (align_resample (time info) name df)))"
    by blast
  from aligned_row_hours [OF r] n
  show "\<exists>name\<in>set selected_list. \<exists>info h. map_of eruptions name = Some info
          \<and> get_cell r ''eruption'' = Str name
          \<and> get_num r ''hours_to_eruption'' = Fin h
          \<and> - 80 - 1 / 6 < h \<and> h \<le> 24 \<and> (time info mod 600 = 0 \<longrightarrow> - 80 \<le> h)"
    by blast
next
  assume "Dashboard_load_aligned_selected m selected_list' selected_stations = Inr out'"
    and "r' \<in> set (rows out')"
  from Dashboard_rows [OF this] obtain name info c df where
    n: "name \<in> set selected_list'" "map_of (constants_eruptions m) name = Some info"
    and r: "r' \<in> set (rows (assign ''color'' Object (\<lambda>r. Str c)
                                 (align_resample (time info) name df)))"
    by blast
  from aligned_row_hours [OF r] n
  show "\<exists>name\<in>set selected_list'. \<exists>info h. map_of (constants_eruptions m) name = Some info
          \<and> get_cell r' ''eruption'' = Str name
          \<and> get_num r' ''hours_to_eruption'' = Fin h
          \<and> - 80 - 1 / 6 < h \<and> h \<le> 24 \<and> (time info mod 600 = 0 \<longrightarrow> - 80 \<le> h)"
    by blast
qed

theorem hours_to_eruption_window_witness:
  "load_aligned_selected example_world example_selection =
     Inr ([Warning ''File not found: 2016_09_11_06h_41_UTC_pf_aggregated_1min_1Hz.csv''],
          example_aligned)
   \<and> rows example_aligned ! 0 \<in> set (rows example_aligned)
   \<and> (\<exists>name\<in>set example_selection. \<exists>info h. map_of eruptions name = Some info
          \<and> get_cell (rows example_aligned ! 0) ''eruption'' = Str name
          \<and> get_num (rows example_aligned ! 0) ''hours_to_eruption'' = Fin h
          \<and> - 80 - 1 / 6 < h \<and> h \<le> 24 \<and> (time info mod 600 = 0 \<longrightarrow> - 80 \<le> h))"
proof -
  have mem: "rows example_aligned ! 0 \<in> set (rows example_aligned)"
    by (simp add: example_aligned_def)
  from hours_to_eruption_window [THEN conjunct1, rule_format, OF conjI [OF example_run mem]]
    example_run mem
  show ?thesis by (intro conjI)
qed

text \<open>
  C1 as stated fails for the eruption of 19 Sep 2022 at 06:23 UTC: the row taken exactly
  80 hours before the eruption (22:23:00) falls in the bin labelled 22:20:00, and the row
  of the combined table has \<open>-80.05\<close> hours.
\<close>

theorem hours_below_minus_80:
  "load_aligned_selected example_world example_selection =
     Inr ([Warning ''File not found: 2016_09_11_06h_41_UTC_pf_aggregated_1min_1Hz.csv''],
          example_aligned)
   \<and> get_num (rows example_aligned ! 3) ''hours_to_eruption'' = Fin (- 1601 / 20)
   \<and> fl_less (Fin (- 1601 / 20)) (Fin (- 80))"
  using example_run by (simp add: example_aligned_def get_num_def get_cell_def)


lemma bin_of_interval: "(bin_of t = k) = (600 * k \<le> t \<and> t < 600 * k + 600)"
  unfolding bin_of_def by auto





lemma aligned_frame_spaced:
  fixes f :: frame
  assumes f: "f = assign ''color'' Object (\<lambda>r. Str c) (align_resample e name df)"
    and i: "Suc i < length (rows f)"
  shows "time_min (rows f ! Suc i) = time_min (rows f ! i) + 600
     \<and> fl_le (get_num (rows f ! i) ''hours_to_eruption'')
              (get_num (rows f ! Suc i) ''hours_to_eruption'')"
proof -
  let ?g = "align_resample e name df"
  have len: "length (rows f) = length (rows ?g)" unfolding f by (simp add: rows_assign)
  have tm: "map time_min (rows f) = map time_min (rows ?g)" unfolding f by (rule times_assign)
  have "map time_min (rows f) ! Suc i = map time_min (rows f) ! i + 600"
    unfolding tm using times_align_resample_spaced [of i e name df] i len by simp
  then have sp: "time_min (rows f ! Suc i) = time_min (rows f ! i) + 600"
    using i by simp
  have "rows f ! i \<in> set (rows f)" "rows f ! Suc i \<in> set (rows f)"
    using i by simp_all
  from aligned_row [OF this(1) [unfolded f]] aligned_row [OF this(2) [unfolded f]]
  have "get_num (rows f ! i) ''hours_to_eruption'' = hours_between (time_min (rows f ! i)) e"
    "get_num (rows f ! Suc i) ''hours_to_eruption'' = hours_between (time_min (rows f ! i) + 600) e"
    using sp unfolding f by simp_all
  then show ?thesis using sp by (simp add: hours_between_def divide_right_mono)
qed

lemma load_loop_sub:
  "load_loop w sel = Inr (msgs, frames) \<Longrightarrow> distinct sel \<Longrightarrow>
     filter (\<lambda>r. get_cell r ''eruption'' = Str n) (concat (map rows frames)) = []
     \<or> (\<exists>f\<in>set frames. filter (\<lambda>r. get_cell r ''eruption'' = Str n) (concat (map rows frames)) = rows f)"
proof (induction sel arbitrary: msgs frames)
  case Nil
  then show ?case by simp
next
  case (Cons a sel)
  let ?P = "\<lambda>r. get_cell r ''eruption'' = Str n"
  from Cons.prems(1) obtain ms1 fo ms2 fr2 where
    one: "load_one w a = Inr (ms1, fo)" and rest: "load_loop w sel = Inr (ms2, fr2)"
    and fr: "frames = (case fo of None \<Rightarrow> fr2 | Some f \<Rightarrow> f # fr2)"
    by (auto split: sum.splits prod.splits)
  from Cons.prems(2) have d: "distinct sel" "a \<notin> set sel" by simp_all
  note ih = Cons.IH [OF rest d(1)]
  show ?case
  proof (cases fo)
    case None
    with fr ih show ?thesis by simp
  next
    case (Some f)
    from load_one_frame [OF one [unfolded Some]] obtain info :: eruption_info and c df where
      f: "f = assign ''color'' Object (\<lambda>r. Str c) (align_resample (time info) a df)" by auto
    have tag: "get_cell r ''eruption'' = Str a" if "r \<in> set (rows f)" for r
      using aligned_row that unfolding f by blast
    show ?thesis
    proof (cases "a = n")
      case True
      have "filter ?P (rows f) = rows f" using tag True by (simp add: filter_id_conv)
      moreover have "filter ?P (concat (map rows fr2)) = []"
      proof -
        have "\<not> ?P r" if "r \<in> set (concat (map rows fr2))" for r
        proof -
          from that obtain g where g: "g \<in> set fr2" "r \<in> set (rows g)" by auto
          from load_loop_frames [OF rest g(1)] obtain b ms where
            b: "b \<in> set sel" "load_one w b = Inr (ms, Some g)" by blast
          from load_one_frame [OF b(2)] g(2) aligned_row have "get_cell r ''eruption'' = Str b"
            by blast
          with b(1) d(2) True show ?thesis by auto
        qed
        then show ?thesis by (simp add: filter_empty_conv)
      qed
      ultimately show ?thesis using fr Some by simp
    next
      case False
      then have "filter ?P (rows f) = []" using tag by (auto simp: filter_empty_conv)
      with fr Some ih show ?thesis by auto
    qed
  qed
qed

text \<open>
  C8. In \<^verbatim>\<open>src/dashboard_v2/app.py\<close>, every frame that a round of the loop appends
  has its rows exactly ten minutes apart, in increasing order, with
  \<open>hours_to_eruption\<close> not decreasing from one row to the next. When the selected
  eruptions are distinct (the multiselect gives each at most once), the same holds for
  \<open>sub\<close>, the rows of one eruption in the combined table.
\<close>

theorem segment_spacing:
  "(load_loop w selected_list = Inr (msgs, all_frames) \<and> f \<in> set all_frames
      \<and> Suc i < length (rows f) \<longrightarrow>
        time_min (rows f ! Suc i) = time_min (rows f ! i) + 600
        \<and> fl_le (get_num (rows f ! i) ''hours_to_eruption'')
                 (get_num (rows f ! Suc i) ''hours_to_eruption''))
   \<and> (load_aligned_selected w selected_list = Inr (msgs, df_compare) \<and> distinct selected_list
      \<and> Suc j < length (sub df_compare eruption) \<longrightarrow>
        time_min (sub df_compare eruption ! Suc j) = time_min (sub df_compare eruption ! j) + 600
        \<and> fl_le (get_num (sub df_compare eruption ! j) ''hours_to_eruption'')
                 (get_num (sub df_compare eruption ! Suc j) ''hours_to_eruption''))"
proof (rule conjI; rule impI; elim conjE)
  assume loop: "load_loop w selected_list = Inr (msgs, all_frames)" and f: "f \<in> set all_frames"
    and i: "Suc i < length (rows f)"
  from load_loop_frames [OF loop f] obtain name ms where "load_one w name = Inr (ms, Some f)"
    by blast
  from load_one_frame [OF this] obtain info :: eruption_info and c df where
    "f = assign ''color'' Object (\<lambda>r. Str c) (align_resample (time info) name df)" by auto
  from aligned_frame_spaced [OF this i]
  show "time_min (rows f ! Suc i) = time_min (rows f ! i) + 600
        \<and> fl_le (get_num (rows f ! i) ''hours_to_eruption'')
                 (get_num (rows f ! Suc i) ''hours_to_eruption'')" by simp
next
  let ?s = "sub df_compare eruption"
  assume run: "load_aligned_selected w selected_list = Inr (msgs, df_compare)"
    and d: "distinct selected_list" and j: "Suc j < length ?s"
  from run obtain frames where loop: "load_loop w selected_list = Inr (msgs, frames)"
    and out: "df_compare = (if frames \<noteq> [] then concat_frames frames else empty_frame)"
    by (auto simp: load_aligned_selected_def split: sum.splits prod.splits)
  have s: "?s = filter (\<lambda>r. get_cell r ''eruption'' = Str eruption) (concat (map rows frames))"
    unfolding sub_def out by (simp add: rows_concat_frames empty_frame_def)
  from load_loop_sub [OF loop d, of eruption] j s obtain g where
    g: "g \<in> set frames" "?s = rows g" by auto
  from load_loop_frames [OF loop g(1)] obtain name ms where "load_one w name = Inr (ms, Some g)"
    by blast
  from load_one_frame [OF this] obtain info :: eruption_info and c df where
    "g = assign ''color'' Object (\<lambda>r. Str c) (align_resample (time info) name df)" by auto
  from aligned_frame_spaced [OF this j [unfolded g(2)]]
  show "time_min (?s ! Suc j) = time_min (?s ! j) + 600
        \<and> fl_le (get_num (?s ! j) ''hours_to_eruption'') (get_num (?s ! Suc j) ''hours_to_eruption'')"
    unfolding g(2) by simp
qed

theorem segment_spacing_witness:
  "distinct example_selection
   \<and> length (sub example_aligned (''24 Aug 2015 '' @ en_dash @ '' 16:50 UTC'')) = 3
   \<and> time_min (sub example_aligned (''24 Aug 2015 '' @ en_dash @ '' 16:50 UTC'') ! Suc 0)
       = time_min (sub example_aligned (''24 Aug 2015 '' @ en_dash @ '' 16:50 UTC'') ! 0) + 600
   \<and> fl_le (get_num (sub example_aligned (''24 Aug 2015 '' @ en_dash @ '' 16:50 UTC'') ! 0)
              ''hours_to_eruption'')
            (get_num (sub example_aligned (''24 Aug 2015 '' @ en_dash @ '' 16:50 UTC'') ! Suc 0)
              ''hours_to_eruption'')"
proof -
  have d: "distinct example_selection"
    by (simp add: example_selection_def en_dash_def)
  have len: "length (sub example_aligned (''24 Aug 2015 '' @ en_dash @ '' 16:50 UTC'')) = 3"
    by code_simp
  then have j: "Suc 0 < length (sub example_aligned (''24 Aug 2015 '' @ en_dash @ '' 16:50 UTC''))"
    by simp
  from segment_spacing [THEN conjunct2, rule_format, OF conjI [OF example_run conjI [OF d j]]]
    d len
  show ?thesis by (intro conjI) simp_all
qed


lemma load_one_missing:
  "map_of eruptions name = Some info \<Longrightarrow> \<not> path_exists w (file_name info) \<Longrightarrow>
     load_one w name = Inr ([Warning (''File not found: '' @ file_name info)], None)"
  by (simp add: load_one_def)

lemma load_loop_removeAll:
  assumes "map_of eruptions name = Some info" and "\<not> path_exists w (file_name info)"
  shows "map_sum id snd (load_loop w sel) = map_sum id snd (load_loop w (removeAll name sel))"
proof (induction sel)
  case Nil
  show ?case by simp
next
  case (Cons a sel)
  show ?case
  proof (cases "a = name")
    case True
    with Cons load_one_missing [OF assms] show ?thesis
      by (cases "load_loop w sel") auto
  next
    case False
    with Cons show ?thesis
      by (cases "load_loop w sel"; cases "load_loop w (removeAll name sel)";
          cases "load_one w a") (auto split: prod.splits)
  qed
qed

lemma load_loop_warning:
  assumes "map_of eruptions name = Some info" and "\<not> path_exists w (file_name info)"
  shows "name \<in> set sel \<Longrightarrow> load_loop w sel = Inr (msgs, frames) \<Longrightarrow>
     Warning (''File not found: '' @ file_name info) \<in> set msgs"
proof (induction sel arbitrary: msgs frames)
  case Nil
  then show ?case by simp
next
  case (Cons a sel)
  from Cons.prems(2) obtain ms1 fo ms2 fr2 where
    one: "load_one w a = Inr (ms1, fo)" and rest: "load_loop w sel = Inr (ms2, fr2)"
    and ms: "msgs = ms1 @ ms2"
    by (auto split: sum.splits prod.splits)
  show ?case
  proof (cases "a = name")
    case True
    with one load_one_missing [OF assms] ms show ?thesis by auto
  next
    case False
    with Cons.prems(1) have "name \<in> set sel" by simp
    from Cons.IH [OF this rest] ms show ?thesis by simp
  qed
qed

text \<open>
  C6. In \<^verbatim>\<open>src/dashboard_v2/app.py\<close>, when the file of an eruption of the table
  does not exist, the routine gives the same result for a list as for the list without
  that eruption: the same exception, or the same combined table. When the eruption is in
  the list and the routine returns, the warning \<open>File not found\<close> for its file is among
  the messages shown.
\<close>

theorem missing_file_isolation:
  "map_of eruptions name = Some info \<and> \<not> path_exists w (file_name info) \<longrightarrow>
     map_sum id snd (load_aligned_selected w selected_list)
       = map_sum id snd (load_aligned_selected w (removeAll name selected_list))
     \<and> (name \<in> set selected_list \<and> load_aligned_selected w selected_list = Inr (msgs, out)
          \<longrightarrow> Warning (''File not found: '' @ file_name info) \<in> set msgs)"
proof (intro impI conjI; elim conjE)
  assume a: "map_of eruptions name = Some info" "\<not> path_exists w (file_name info)"
  from load_loop_removeAll [OF a, of selected_list]
  show "map_sum id snd (load_aligned_selected w selected_list)
       = map_sum id snd (load_aligned_selected w (removeAll name selected_list))"
    by (cases "load_loop w selected_list"; cases "load_loop w (removeAll name selected_list)")
       (auto simp: load_aligned_selected_def split: prod.splits)
  assume "name \<in> set selected_list" "load_aligned_selected w selected_list = Inr (msgs, out)"
  with load_loop_warning [OF a]
  show "Warning (''File not found: '' @ file_name info) \<in> set msgs"
    by (auto simp: load_aligned_selected_def split: sum.splits prod.splits)
qed

theorem missing_file_isolation_witness:
  "map_of eruptions (''11 Sep 2016 '' @ en_dash @ '' 04:05 UTC'')
     = Some \<lparr>file_name = ''2016_09_11_06h_41_UTC_pf_aggregated_1min_1Hz.csv'', time = 1473566700\<rparr>
   \<and> \<not> path_exists example_world ''2016_09_11_06h_41_UTC_pf_aggregated_1min_1Hz.csv''
   \<and> map_sum id snd (load_aligned_selected example_world example_selection) = Inr example_aligned
   \<and> map_sum id snd (load_aligned_selected example_world
        [''24 Aug 2015 '' @ en_dash @ '' 16:50 UTC'', ''19 Sep 2022 '' @ en_dash @ '' 06:23 UTC''])
       = Inr example_aligned
   \<and> Warning ''File not found: 2016_09_11_06h_41_UTC_pf_aggregated_1min_1Hz.csv''
       \<in> set [Warning ''File not found: 2016_09_11_06h_41_UTC_pf_aggregated_1min_1Hz.csv'']"
proof -
  let ?info = "\<lparr>file_name = ''2016_09_11_06h_41_UTC_pf_aggregated_1min_1Hz.csv'', time = 1473566700\<rparr>"
  have a: "map_of eruptions (''11 Sep 2016 '' @ en_dash @ '' 04:05 UTC'') = Some ?info"
    by (simp add: eruptions_def en_dash_def)
  have b: "\<not> path_exists example_world (file_name ?info)"
    by (simp add: example_world_def)
  have r: "removeAll (''11 Sep 2016 '' @ en_dash @ '' 04:05 UTC'') example_selection
      = [''24 Aug 2015 '' @ en_dash @ '' 16:50 UTC'', ''19 Sep 2022 '' @ en_dash @ '' 06:23 UTC'']"
    by (simp add: example_selection_def en_dash_def)
  have m: "''11 Sep 2016 '' @ en_dash @ '' 04:05 UTC'' \<in> set example_selection"
    by (simp add: example_selection_def)
  note t = missing_file_isolation [rule_format, OF conjI [OF a b], of example_selection]
  from t [THEN conjunct1] t [THEN conjunct2, rule_format, OF conjI [OF m example_run]] a b
  show ?thesis unfolding r by (simp add: example_run)
qed


section \<open>Properties of the routine with a station list\<close>

lemma station_isin_empty: "station_isin [] df = Inr df' \<Longrightarrow> rows df' = []"
  by (auto simp: station_isin_def filter_empty_conv split: if_splits cell.splits)

lemma rows_window_filter_empty: "rows df = [] \<Longrightarrow> rows (window_filter e df) = []"
  by (simp add: window_filter_def)

lemma Dashboard_loop_no_stations: "Dashboard_loop m [] sel = Inr frames \<Longrightarrow> frames = []"
proof (induction sel arbitrary: frames)
  case Nil
  then show ?case by simp
next
  case (Cons n sel)
  from Cons.prems obtain df0 df1 and info :: eruption_info where
    l: "load_eruption_file m n = Inr df0" and s: "station_isin [] df0 = Inr df1"
    and i: "map_of (constants_eruptions m) n = Some info"
    by (auto split: sum.splits option.splits)
  have "rows (window_filter (time info) df1) = []"
    using station_isin_empty [OF s] by (rule rows_window_filter_empty)
  with Cons.prems l s i have "Dashboard_loop m [] sel = Inr frames" by simp
  then show ?case by (rule Cons.IH)
qed

lemma Dashboard_loop_no_stations_returns:
  "\<forall>name\<in>set sel. name \<in> fst ` set (constants_eruptions m)
      \<and> (\<exists>df. load_eruption_file m name = Inr df \<and> ''station'' \<in> fst ` set (columns df))
   \<Longrightarrow> Dashboard_loop m [] sel = Inr []"
proof (induction sel)
  case Nil
  then show ?case by simp
next
  case (Cons n sel)
  from Cons.prems obtain df where df: "load_eruption_file m n = Inr df"
    "''station'' \<in> fst ` set (columns df)" by auto
  from Cons.prems have "n \<in> fst ` set (constants_eruptions m)" by simp
  then obtain info where i: "map_of (constants_eruptions m) n = Some info"
    by (metis domD dom_map_of_conv_image_fst)
  obtain df1 where s: "station_isin [] df = Inr df1"
    using df(2) by (auto simp: station_isin_def)
  have e: "rows (window_filter (time info) df1) = []"
    using station_isin_empty [OF s] by (rule rows_window_filter_empty)
  from Cons.prems have "Dashboard_loop m [] sel = Inr []" by (intro Cons.IH) simp
  with df(1) s i e show ?case by simp
qed

text \<open>
  C7. In \<^verbatim>\<open>src/Dashboard/app.py\<close> the station filter is the first step of a round of
  the loop, before the window filter and the resampling. With no station selected it
  leaves no row, so the window filter leaves none either and the round appends nothing:
  whenever the routine returns, it returns \<open>pd.DataFrame()\<close>; and it does return when
  every selected name is in the table and its frame loads with a column \<open>station\<close>.
\<close>

theorem empty_station_set_empty_result:
  "(Dashboard_load_aligned_selected m selected_list [] = Inr out \<longrightarrow> out = empty_frame)
   \<and> (station_isin [] df = Inr df' \<longrightarrow> rows df' = [] \<and> rows (window_filter e df') = [])
   \<and> ((\<forall>name\<in>set selected_list. name \<in> fst ` set (constants_eruptions m)
          \<and> (\<exists>df. load_eruption_file m name = Inr df \<and> ''station'' \<in> fst ` set (columns df)))
        \<longrightarrow> Dashboard_load_aligned_selected m selected_list [] = Inr empty_frame)"
proof (intro conjI impI)
  assume "Dashboard_load_aligned_selected m selected_list [] = Inr out"
  then show "out = empty_frame"
    using Dashboard_loop_no_stations [of m selected_list]
    by (auto simp: Dashboard_load_aligned_selected_def split: sum.splits)
next
  assume "station_isin [] df = Inr df'"
  then show "rows df' = []" by (rule station_isin_empty)
  then show "rows (window_filter e df') = []" by (rule rows_window_filter_empty)
next
  assume "\<forall>name\<in>set selected_list. name \<in> fst ` set (constants_eruptions m)
          \<and> (\<exists>df. load_eruption_file m name = Inr df \<and> ''station'' \<in> fst ` set (columns df))"
  from Dashboard_loop_no_stations_returns [OF this]
  show "Dashboard_load_aligned_selected m selected_list [] = Inr empty_frame"
    by (simp add: Dashboard_load_aligned_selected_def)
qed

theorem empty_station_set_empty_result_witness:
  "Dashboard_load_aligned_selected example_modules example_selection [] = Inr empty_frame
   \<and> station_isin [] example_frame_2015
       = Inr \<lparr>columns = [(''station'', Object), (''amplitude_mean'', Numeric)], rows = []\<rparr>
   \<and> rows (window_filter 1440435000
        \<lparr>columns = [(''station'', Object), (''amplitude_mean'', Numeric)], rows = []\<rparr>) = []"
proof -
  have h: "\<forall>name\<in>set example_selection. name \<in> fst ` set (constants_eruptions example_modules)
          \<and> (\<exists>df. load_eruption_file example_modules name = Inr df
                \<and> ''station'' \<in> fst ` set (columns df))"
    by (simp add: example_selection_def example_modules_def eruptions_def example_frame_2015_def)
  have s: "station_isin [] example_frame_2015
       = Inr \<lparr>columns = [(''station'', Object), (''amplitude_mean'', Numeric)], rows = []\<rparr>"
    by code_simp
  note t = empty_station_set_empty_result [of example_modules example_selection _ example_frame_2015
      "\<lparr>columns = [(''station'', Object), (''amplitude_mean'', Numeric)], rows = []\<rparr>" 1440435000]
  from t [THEN conjunct2, THEN conjunct2, THEN mp, OF h]
    t [THEN conjunct2, THEN conjunct1, THEN mp, OF s] s
  show ?thesis by simp
qed

section \<open>Properties of the spectrogram section\<close>



section \<open>Properties of the single-file dashboard\<close>





section \<open>The columns of the combined table\<close>


















end
